theory Spec2Isabelle
  imports Complex_Main "HOL-Library.Char_ord"
begin

section \<open>Floating-point values as the indicator code sees them\<close>

text \<open>
  The indicator and statistics code works on pandas columns of float64. The model keeps
  the four kinds of value such a cell can hold: a finite number, the two infinities and
  NaN. Finite numbers are idealised as reals: no rounding error, no overflow, no signed
  zero. The arithmetic below is the IEEE-754 arithmetic that numpy applies to float64
  scalars: it never raises, a division by zero gives an infinity or NaN.
\<close>

datatype fl = Fin real | PInf | NInf | NaN

datatype py_error = ValueError | IndexError | NetworkError

fun fl_neg :: "fl \<Rightarrow> fl" where
  "fl_neg (Fin x) = Fin (- x)"
| "fl_neg PInf = NInf"
| "fl_neg NInf = PInf"
| "fl_neg NaN = NaN"

fun fl_add :: "fl \<Rightarrow> fl \<Rightarrow> fl" where
  "fl_add (Fin x) (Fin y) = Fin (x + y)"
| "fl_add NaN _ = NaN"
| "fl_add _ NaN = NaN"
| "fl_add PInf NInf = NaN"
| "fl_add NInf PInf = NaN"
| "fl_add PInf _ = PInf"
| "fl_add _ PInf = PInf"
| "fl_add NInf _ = NInf"
| "fl_add _ NInf = NInf"

definition fl_sub :: "fl \<Rightarrow> fl \<Rightarrow> fl" where
  "fl_sub a b = fl_add a (fl_neg b)"

text \<open>The sign of a value that is not NaN: \<open>1\<close>, \<open>0\<close> or \<open>-1\<close>.\<close>

fun fl_sign :: "fl \<Rightarrow> int" where
  "fl_sign (Fin x) = (if 0 < x then 1 else if x < 0 then - 1 else 0)"
| "fl_sign PInf = 1"
| "fl_sign NInf = - 1"
| "fl_sign NaN = 0"

definition inf_of_sign :: "int \<Rightarrow> fl" where
  "inf_of_sign s = (if 0 < s then PInf else if s < 0 then NInf else NaN)"

fun fl_mul :: "fl \<Rightarrow> fl \<Rightarrow> fl" where
  "fl_mul (Fin x) (Fin y) = Fin (x * y)"
| "fl_mul NaN _ = NaN"
| "fl_mul _ NaN = NaN"
| "fl_mul a b = inf_of_sign (fl_sign a * fl_sign b)"

fun fl_div :: "fl \<Rightarrow> fl \<Rightarrow> fl" where
  "fl_div (Fin x) (Fin y) = (if y = 0 then inf_of_sign (fl_sign (Fin x)) else Fin (x / y))"
| "fl_div NaN _ = NaN"
| "fl_div _ NaN = NaN"
| "fl_div (Fin x) _ = Fin 0"
| "fl_div a (Fin y) = inf_of_sign (fl_sign a * (if y < 0 then - 1 else 1))"
| "fl_div _ _ = NaN"

fun fl_lt :: "fl \<Rightarrow> fl \<Rightarrow> bool" where
  "fl_lt (Fin x) (Fin y) = (x < y)"
| "fl_lt NaN _ = False"
| "fl_lt _ NaN = False"
| "fl_lt _ NInf = False"
| "fl_lt PInf _ = False"
| "fl_lt _ _ = True"

definition fl_gt :: "fl \<Rightarrow> fl \<Rightarrow> bool" where
  "fl_gt a b = fl_lt b a"

text \<open>Python's \<open>==\<close> on floats: NaN is equal to nothing, itself included.\<close>

definition fl_eq :: "fl \<Rightarrow> fl \<Rightarrow> bool" where
  "fl_eq a b = (a \<noteq> NaN \<and> b \<noteq> NaN \<and> a = b)"

definition fl_sum :: "fl list \<Rightarrow> fl" where
  "fl_sum xs = foldl fl_add (Fin 0) xs"

definition is_fin :: "fl \<Rightarrow> bool" where
  "is_fin v = (case v of Fin _ \<Rightarrow> True | _ \<Rightarrow> False)"

section \<open>The pandas operations the code calls\<close>

text \<open>
  A DataFrame is modelled by its \<open>Close\<close> column, the only column the functions
  below read: one finite close per row, in date order. \<open>None\<close> is the missing
  DataFrame (\<open>self.data is None\<close>), the empty list the empty one.
\<close>

type_synonym dataframe = "real list option"

definition Close :: "real list \<Rightarrow> fl list" where
  "Close cs = map Fin cs"

text \<open>\<open>Series.diff()\<close>: NaN at the first row, then each value minus the one before.\<close>

definition diff :: "fl list \<Rightarrow> fl list" where
  "diff xs = (case xs of [] \<Rightarrow> [] | _ # rest \<Rightarrow> NaN # map (\<lambda>(p, c). fl_sub c p) (zip xs rest))"

text \<open>
  \<open>Series.where(cond, other)\<close>: keeps a value where the condition holds and puts
  \<open>other\<close> elsewhere. A comparison with NaN is false, so a NaN cell is replaced.
\<close>

definition where_fl :: "(fl \<Rightarrow> bool) \<Rightarrow> fl \<Rightarrow> fl list \<Rightarrow> fl list" where
  "where_fl cond other xs = map (\<lambda>x. if cond x then x else other) xs"

text \<open>
  \<open>Series.rolling(window=w).mean().iloc[-1]\<close> on a non-empty series. A negative
  window raises ValueError. \<open>min_periods\<close> defaults to the window: the last cell is
  NaN unless the trailing window holds \<open>w\<close> observations that are not NaN, and an empty
  window (\<open>w = 0\<close>) has no mean.
\<close>

definition rolling_mean_last :: "int \<Rightarrow> fl list \<Rightarrow> py_error + fl" where
  "rolling_mean_last w xs =
     (if w < 0 then Inl ValueError
      else if xs = [] then Inl IndexError
      else let obs = filter (\<lambda>x. x \<noteq> NaN) (drop (length xs - nat w) xs)
           in if w = 0 \<or> length obs < nat w then Inr NaN
              else Inr (fl_div (fl_sum obs) (Fin (real (length obs)))))"

text \<open>
  \<open>Series.pct_change()\<close>: NaN at the first row, then \<open>x[t] / x[t-1] - 1\<close>.
\<close>

definition pct_change :: "fl list \<Rightarrow> fl list" where
  "pct_change xs =
     (case xs of [] \<Rightarrow> []
      | _ # rest \<Rightarrow> NaN # map (\<lambda>(p, c). fl_sub (fl_div c p) (Fin 1)) (zip xs rest))"

text \<open>
  \<open>Series.std()\<close>: the NaN cells are skipped, the divisor is \<open>n - 1\<close>
  (\<open>ddof = 1\<close>). Fewer than two observations give NaN, and so does any infinite
  observation (the deviation from an infinite mean is NaN).
\<close>

definition std :: "fl list \<Rightarrow> fl" where
  "std xs =
     (let obs = filter (\<lambda>x. x \<noteq> NaN) xs; n = length obs
      in if n < 2 then NaN
         else if \<exists>x \<in> set obs. \<not> is_fin x then NaN
         else let vs = map (\<lambda>x. case x of Fin r \<Rightarrow> r | _ \<Rightarrow> 0) obs;
                  avg = sum_list vs / real n
              in Fin (sqrt (sum_list (map (\<lambda>v. (avg - v)\<^sup>2) vs) / real (n - 1))))"

section \<open>TechnicalIndicators\<close>

text \<open>
  The two local variables \<open>gains\<close> and \<open>losses\<close> of \<open>calculate_rsi\<close>, and the
  two rolling means taken from them.
\<close>

definition gains :: "real list \<Rightarrow> fl list" where
  "gains cs = where_fl (\<lambda>d. fl_gt d (Fin 0)) (Fin 0) (diff (Close cs))"

definition losses :: "real list \<Rightarrow> fl list" where
  "losses cs = map fl_neg (where_fl (\<lambda>d. fl_lt d (Fin 0)) (Fin 0) (diff (Close cs)))"

definition avg_gain :: "real list \<Rightarrow> int \<Rightarrow> py_error + fl" where
  "avg_gain cs period = rolling_mean_last period (gains cs)"

definition avg_loss :: "real list \<Rightarrow> int \<Rightarrow> py_error + fl" where
  "avg_loss cs period = rolling_mean_last period (losses cs)"

text \<open>
  \<open>calculate_rsi\<close>: \<open>Inr None\<close> is Python's \<open>None\<close>, \<open>Inr (Some v)\<close> a returned
  float, \<open>Inl e\<close> an exception that leaves the function.
\<close>

definition calculate_rsi :: "dataframe \<Rightarrow> int \<Rightarrow> py_error + fl option" where
  "calculate_rsi data period =
     (case data of None \<Rightarrow> Inr None
      | Some cs \<Rightarrow>
          if cs = [] then Inr None
          else (case avg_gain cs period of Inl e \<Rightarrow> Inl e
                | Inr g \<Rightarrow>
                    (case avg_loss cs period of Inl e \<Rightarrow> Inl e
                     | Inr l \<Rightarrow>
                         if fl_eq l (Fin 0) then Inr (Some (Fin 100))
                         else let rs = fl_div g l
                              in Inr (Some (fl_sub (Fin 100)
                                   (fl_div (Fin 100) (fl_add (Fin 1) rs)))))))"

datatype signal = ACHETER | VENDRE | ATTENDRE | INCONNU

definition get_simple_signal :: "dataframe \<Rightarrow> py_error + signal" where
  "get_simple_signal data =
     (case calculate_rsi data 14 of Inl e \<Rightarrow> Inl e
      | Inr None \<Rightarrow> Inr INCONNU
      | Inr (Some rsi) \<Rightarrow>
          if fl_lt rsi (Fin 30) then Inr ACHETER
          else if fl_gt rsi (Fin 70) then Inr VENDRE
          else Inr ATTENDRE)"

record price_change =
  prix_debut :: fl
  prix_fin :: fl
  variation :: fl
  variation_pct :: fl

text \<open>\<open>calculate_price_change\<close>: \<open>None\<close> is the empty dict returned without data.\<close>

definition calculate_price_change :: "dataframe \<Rightarrow> price_change option" where
  "calculate_price_change data =
     (case data of None \<Rightarrow> None
      | Some cs \<Rightarrow>
          if cs = [] then None
          else let first_price = hd (Close cs);
                   last_price = last (Close cs);
                   change = fl_sub last_price first_price;
                   change_pct = fl_mul (fl_div change first_price) (Fin 100)
               in Some \<lparr>prix_debut = first_price, prix_fin = last_price,
                        variation = change, variation_pct = change_pct\<rparr>)"

section \<open>Analyzer\<close>

definition calculate_daily_return :: "dataframe \<Rightarrow> fl list option" where
  "calculate_daily_return data =
     (case data of None \<Rightarrow> None
      | Some cs \<Rightarrow>
          if cs = [] then None
          else Some (map (\<lambda>r. fl_mul r (Fin 100)) (pct_change (Close cs))))"

definition calculate_volatility :: "dataframe \<Rightarrow> fl option" where
  "calculate_volatility data =
     (case calculate_daily_return data of None \<Rightarrow> None
      | Some returns \<Rightarrow> Some (std returns))"

section \<open>Stock\<close>

text \<open>
  \<open>str.upper()\<close> on the ASCII letters; every other character is left as it is.
  Ticker symbols are ASCII, and strings are modelled as lists of 8-bit characters.
\<close>

definition upper_char :: "char \<Rightarrow> char" where
  "upper_char c = (if CHR ''a'' \<le> c \<and> c \<le> CHR ''z'' then char_of (of_char c - (32::nat)) else c)"

definition upper :: "string \<Rightarrow> string" where
  "upper s = map upper_char s"

text \<open>
  Python's \<open>round(x, ndigits)\<close> returns the multiple of \<open>10^-ndigits\<close> nearest to
  the float64 it is given. The model has the real number the float stands for. When that
  real is not halfway between two multiples, the nearest one is determined. When it is
  exactly halfway, the float the code rounds lies on one side or the other, by the
  rounding errors of the computation that produced it (4001 against 4000 goes up to
  0.03, 183 against 160 goes down to 14.37), and the real does not tell which: the side is
  the parameter \<open>up\<close>.
\<close>

definition py_round :: "bool \<Rightarrow> real \<Rightarrow> nat \<Rightarrow> real" where
  "py_round up x ndigits =
     (let y = x * 10 ^ ndigits; f = \<lfloor>y\<rfloor>; d = y - of_int f
      in of_int (if d < 1 / 2 then f else if 1 / 2 < d then f + 1 else if up then f + 1 else f)
           / 10 ^ ndigits)"

text \<open>
  A float computation is a function of its inputs, and so is the side a halfway value
  falls on. \<open>ties\<close> gives it for each of the three computations that are rounded: the
  variation of a stock, from its current and its opening price; the total value, from the
  list of the prices added; the average variation, from the list of the variations
  averaged. Every theorem holds for every \<open>ties\<close>.
\<close>

datatype rounded = Variation real real | Total "real list" | Average "real list"

type_synonym ties = "rounded \<Rightarrow> bool"

text \<open>A \<open>datetime\<close> is a point on a discrete clock.\<close>

type_synonym datetime = nat

record stock =
  symbol :: string
  name :: string
  current_price :: "real option"
  opening_price :: "real option"
  highest_price :: "real option"
  lowest_price :: "real option"
  volume :: "int option"
  last_update :: "datetime option"

text \<open>\<open>Stock.__init__\<close>: the symbol is stored in upper case, every price is None.\<close>

definition Stock_init :: "string \<Rightarrow> string \<Rightarrow> stock" where
  "Stock_init symb nm =
     \<lparr>symbol = upper symb, name = nm, current_price = None, opening_price = None,
      highest_price = None, lowest_price = None, volume = None, last_update = None\<rparr>"

text \<open>
  \<open>update_price\<close> mutates the object; the model returns the updated record. The
  first argument is the value \<open>datetime.now()\<close> returns during the call. The new price
  is stored as it comes, which \<open>fetch_and_update_portfolio\<close> relies on when it passes
  another stock's optional \<open>current_price\<close>.
\<close>

definition update_price ::
  "datetime \<Rightarrow> real option \<Rightarrow> real option \<Rightarrow> real option \<Rightarrow> real option \<Rightarrow> int option
     \<Rightarrow> stock \<Rightarrow> stock" where
  "update_price now new_price opening high low vol s =
     (let s1 = s\<lparr>current_price := new_price\<rparr>;
          s2 = (case opening of None \<Rightarrow> s1 | Some v \<Rightarrow> s1\<lparr>opening_price := Some v\<rparr>);
          s3 = (case high of None \<Rightarrow> s2 | Some v \<Rightarrow> s2\<lparr>highest_price := Some v\<rparr>);
          s4 = (case low of None \<Rightarrow> s3 | Some v \<Rightarrow> s3\<lparr>lowest_price := Some v\<rparr>);
          s5 = (case vol of None \<Rightarrow> s4 | Some v \<Rightarrow> s4\<lparr>volume := Some v\<rparr>)
      in s5\<lparr>last_update := Some now\<rparr>)"

definition get_variation :: "ties \<Rightarrow> stock \<Rightarrow> real option" where
  "get_variation ties s =
     (case current_price s of None \<Rightarrow> None
      | Some c \<Rightarrow>
          (case opening_price s of None \<Rightarrow> None
           | Some p \<Rightarrow>
               if p = 0 then None
               else Some (py_round (ties (Variation c p)) ((c - p) / p * 100) 2)))"

section \<open>Portfolio\<close>

record portfolio =
  portfolio_name :: string
  stocks :: "stock list"

definition get_stock :: "portfolio \<Rightarrow> string \<Rightarrow> stock option" where
  "get_stock p symb = find (\<lambda>s. symbol s = upper symb) (stocks p)"

text \<open>\<open>add_stock\<close> returns its boolean together with the portfolio after the call.\<close>

definition add_stock :: "portfolio \<Rightarrow> stock \<Rightarrow> bool \<times> portfolio" where
  "add_stock p s =
     (if get_stock p (symbol s) \<noteq> None then (False, p)
      else (True, p\<lparr>stocks := stocks p @ [s]\<rparr>))"







section \<open>DataFetcher\<close>

text \<open>
  The backing data source is a fixed function from the symbol to what
  \<open>yf.Ticker(symbol).info\<close> gives: an exception, or the info dict. The dict is
  modelled by the keys the code reads. An entry is \<open>None\<close> when the key is absent and
  \<open>Some v\<close> when it is present with the value \<open>v\<close>, which may itself be Python's
  None; the two name keys hold a string when present. \<open>dict_get\<close> is
  \<open>dict.get(key, default)\<close>.
\<close>

record yf_info =
  info_longName :: "string option"
  info_shortName :: "string option"
  info_currentPrice :: "real option option"
  info_regularMarketPrice :: "real option option"
  info_open :: "real option option"
  info_regularMarketOpen :: "real option option"
  info_dayHigh :: "real option option"
  info_regularMarketDayHigh :: "real option option"
  info_dayLow :: "real option option"
  info_regularMarketDayLow :: "real option option"
  info_volume :: "int option option"
  info_regularMarketVolume :: "int option option"
  info_previousClose :: "real option option"
  info_regularMarketPreviousClose :: "real option option"

type_synonym source = "string \<Rightarrow> py_error + yf_info"

definition dict_get :: "'v option option \<Rightarrow> 'v option \<Rightarrow> 'v option" where
  "dict_get entry dflt = (case entry of None \<Rightarrow> dflt | Some v \<Rightarrow> v)"

record quote_data =
  data_symbol :: string
  data_name :: string
  data_current_price :: "real option"
  data_open :: "real option"
  data_high :: "real option"
  data_low :: "real option"
  data_volume :: "int option"
  data_previous_close :: "real option"

text \<open>
  \<open>fetch_current_price\<close>: an exception of the source is caught and gives None; so
  does a dict without the key \<open>currentPrice\<close> (an empty dict has no key); so does a
  current price that is None, because formatting it in the \<open>print\<close> raises inside
  the \<open>try\<close>.
\<close>

definition fetch_current_price :: "source \<Rightarrow> string \<Rightarrow> quote_data option" where
  "fetch_current_price src symb =
     (case src symb of Inl e \<Rightarrow> None
      | Inr info \<Rightarrow>
          if info_currentPrice info = None then None
          else let data =
                 \<lparr>data_symbol = upper symb,
                  data_name = (case info_longName info of Some n \<Rightarrow> n
                               | None \<Rightarrow> (case info_shortName info of Some n \<Rightarrow> n
                                            | None \<Rightarrow> symb)),
                  data_current_price =
                    dict_get (info_currentPrice info) (dict_get (info_regularMarketPrice info) None),
                  data_open = dict_get (info_open info) (dict_get (info_regularMarketOpen info) None),
                  data_high =
                    dict_get (info_dayHigh info) (dict_get (info_regularMarketDayHigh info) None),
                  data_low =
                    dict_get (info_dayLow info) (dict_get (info_regularMarketDayLow info) None),
                  data_volume =
                    dict_get (info_volume info) (dict_get (info_regularMarketVolume info) (Some 0)),
                  data_previous_close =
                    dict_get (info_previousClose info)
                      (dict_get (info_regularMarketPreviousClose info) None)\<rparr>
               in if data_current_price data = None then None else Some data)"

definition create_stock_from_api :: "source \<Rightarrow> datetime \<Rightarrow> string \<Rightarrow> stock option" where
  "create_stock_from_api src now symb =
     (case fetch_current_price src symb of None \<Rightarrow> None
      | Some data \<Rightarrow>
          Some (update_price now (data_current_price data) (data_open data) (data_high data)
                  (data_low data) (data_volume data)
                  (Stock_init (data_symbol data) (data_name data))))"

text \<open>
  The loop of \<open>fetch_multiple_stocks_sync\<close>. The clock gives the time at which the
  stock of each position is stamped. A Stock object is always truthy, so
  \<open>if stock\<close> only excludes None.
\<close>

fun sync_loop :: "source \<Rightarrow> (nat \<Rightarrow> datetime) \<Rightarrow> nat \<Rightarrow> string list \<Rightarrow> stock list \<Rightarrow> stock list" where
  "sync_loop src clock i [] acc = acc"
| "sync_loop src clock i (symb # rest) acc =
     (case create_stock_from_api src (clock i) symb of
        None \<Rightarrow> sync_loop src clock (Suc i) rest acc
      | Some stock \<Rightarrow> sync_loop src clock (Suc i) rest (acc @ [stock]))"

definition fetch_multiple_stocks_sync :: "source \<Rightarrow> (nat \<Rightarrow> datetime) \<Rightarrow> string list \<Rightarrow> stock list" where
  "fetch_multiple_stocks_sync src clock symbols = sync_loop src clock 0 symbols []"

section \<open>AsyncFetcher\<close>

text \<open>
  \<open>asyncio.gather(*tasks, return_exceptions=True)\<close> starts every task and returns
  the list of their results in the order of the tasks, whatever the order in which they
  complete. The model runs the tasks in the order of a schedule, the list of the task
  indices in completion order, and stores each result at the index of its task. The
  clock gives the time of each completion.
\<close>

datatype task_result = Pending | Raised py_error | Returned "stock option"

definition fetch_one_stock_async :: "source \<Rightarrow> datetime \<Rightarrow> string \<Rightarrow> task_result" where
  "fetch_one_stock_async src now symb = Returned (create_stock_from_api src now symb)"

fun gather_loop ::
  "source \<Rightarrow> (nat \<Rightarrow> datetime) \<Rightarrow> nat \<Rightarrow> nat list \<Rightarrow> string list \<Rightarrow> task_result list
     \<Rightarrow> task_result list" where
  "gather_loop src clock k [] symbols results = results"
| "gather_loop src clock k (i # sched) symbols results =
     gather_loop src clock (Suc k) sched symbols
       (if i < length symbols
        then results[i := fetch_one_stock_async src (clock k) (symbols ! i)]
        else results)"

definition gather :: "source \<Rightarrow> (nat \<Rightarrow> datetime) \<Rightarrow> nat list \<Rightarrow> string list \<Rightarrow> task_result list" where
  "gather src clock sched symbols =
     gather_loop src clock 0 sched symbols (replicate (length symbols) Pending)"

text \<open>
  The filter of the comprehension: \<open>result is not None and isinstance(result, Stock)\<close>.
\<close>

definition returned_stock :: "task_result \<Rightarrow> stock option" where
  "returned_stock result = (case result of Returned (Some stock) \<Rightarrow> Some stock | _ \<Rightarrow> None)"

definition fetch_multiple_stocks ::
  "source \<Rightarrow> (nat \<Rightarrow> datetime) \<Rightarrow> nat list \<Rightarrow> string list \<Rightarrow> stock list" where
  "fetch_multiple_stocks src clock sched symbols =
     List.map_filter returned_stock (gather src clock sched symbols)"

text \<open>
  Two runs stamp their stocks at different times: quotes are compared without
  \<open>last_update\<close>. \<open>fetched\<close> is the quote a symbol gives, without its time.
\<close>

definition without_time :: "stock \<Rightarrow> stock" where
  "without_time s = s\<lparr>last_update := None\<rparr>"

definition fetched :: "source \<Rightarrow> string \<Rightarrow> stock option" where
  "fetched src symb = map_option without_time (create_stock_from_api src 0 symb)"

definition result_without_time :: "task_result \<Rightarrow> task_result" where
  "result_without_time r =
     (case r of Returned (Some s) \<Rightarrow> Returned (Some (without_time s)) | _ \<Rightarrow> r)"

text \<open>
  A source for the examples: AAPL and msft are known, BAD raises, any other symbol has
  no current price.
\<close>

definition no_info :: yf_info where
  "no_info =
     \<lparr>info_longName = None, info_shortName = None,
      info_currentPrice = None, info_regularMarketPrice = None,
      info_open = None, info_regularMarketOpen = None,
      info_dayHigh = None, info_regularMarketDayHigh = None,
      info_dayLow = None, info_regularMarketDayLow = None,
      info_volume = None, info_regularMarketVolume = None,
      info_previousClose = None, info_regularMarketPreviousClose = None\<rparr>"

definition demo_source :: source where
  "demo_source symb =
     (if symb = ''AAPL''
      then Inr (no_info\<lparr>info_longName := Some ''Apple Inc.'',
                        info_currentPrice := Some (Some 178.5),
                        info_open := Some (Some 175.2)\<rparr>)
      else if symb = ''msft'' then Inr (no_info\<lparr>info_currentPrice := Some (Some 378.9)\<rparr>)
      else if symb = ''BAD'' then Inl NetworkError
      else Inr no_info)"

text \<open>
  The best and the worst performer in the words of the specification: no stock when no
  variation is defined, otherwise the first stock, in insertion order, whose variation is
  the greatest, respectively the least, of the defined variations.
\<close>

definition spec_best_performer :: "ties \<Rightarrow> stock list \<Rightarrow> stock option" where
  "spec_best_performer ties xs =
     (let vs = List.map_filter (get_variation ties) xs
      in if vs = [] then None
         else find (\<lambda>s. get_variation ties s = Some (Max (set vs))) xs)"


section \<open>The formulas of the specification\<close>

text \<open>
  These definitions follow the words of the specification, not the code; the theorems
  compare the code with them. \<open>daily_return\<close>: for each bar after the first,
  \<open>(close[t] - close[t-1]) / close[t-1] * 100\<close>. \<open>sample_std\<close>: the standard
  deviation with divisor \<open>n - 1\<close>. \<open>spec_variation\<close>:
  \<open>(current_price - opening_price) / opening_price * 100\<close>, undefined when a price is
  missing or the opening price is zero. \<open>spec_total_value\<close>: the sum of the current
  prices that are defined. \<open>spec_average_variation\<close>: the mean of the variations that
  are defined, undefined when there is none.
\<close>

definition daily_return :: "real list \<Rightarrow> real list" where
  "daily_return cs = map (\<lambda>(p, c). (c - p) / p * 100) (zip cs (tl cs))"

definition mean :: "real list \<Rightarrow> real" where
  "mean xs = sum_list xs / real (length xs)"

definition sample_std :: "real list \<Rightarrow> real" where
  "sample_std xs = sqrt (sum_list (map (\<lambda>x. (x - mean xs)\<^sup>2) xs) / real (length xs - 1))"




section \<open>Gains and losses as real numbers\<close>

text \<open>
  The closes are finite, so the gains and losses are: the first row, whose difference
  is NaN, holds 0 in both columns, and a later row holds the positive part of the rise,
  respectively of the fall.
\<close>

definition gain_vals :: "real list \<Rightarrow> real list" where
  "gain_vals cs = (case cs of [] \<Rightarrow> [] | _ # rest \<Rightarrow> 0 # map (\<lambda>(p, c). max (c - p) 0) (zip cs rest))"

definition loss_vals :: "real list \<Rightarrow> real list" where
  "loss_vals cs = (case cs of [] \<Rightarrow> [] | _ # rest \<Rightarrow> 0 # map (\<lambda>(p, c). max (p - c) 0) (zip cs rest))"

section \<open>Properties of the relative strength index\<close>

lemma zip_Fin: "zip (map Fin xs) (map Fin ys) = map (\<lambda>(p, c). (Fin p, Fin c)) (zip xs ys)"
  by (induction xs arbitrary: ys) (auto simp: zip_Cons1 split: list.splits)

lemma diff_Close:
  "diff (Close (a # rest)) = NaN # map (\<lambda>(p, c). Fin (c - p)) (zip (a # rest) rest)"
proof -
  have "zip (Fin a # map Fin rest) (map Fin rest) = map (\<lambda>(p, c). (Fin p, Fin c)) (zip (a # rest) rest)"
    using zip_Fin [of "a # rest" rest] by simp
  then show ?thesis
    by (simp add: diff_def Close_def fl_sub_def case_prod_unfold)
qed

lemma gains_vals: "gains cs = map Fin (gain_vals cs)"
proof (cases cs)
  case Nil
  then show ?thesis by (simp add: gains_def gain_vals_def diff_def Close_def where_fl_def)
next
  case (Cons a rest)
  then show ?thesis
    by (simp add: gains_def gain_vals_def diff_Close where_fl_def fl_gt_def max_def case_prod_unfold)
qed

lemma losses_vals: "losses cs = map Fin (loss_vals cs)"
proof (cases cs)
  case Nil
  then show ?thesis by (simp add: losses_def loss_vals_def diff_def Close_def where_fl_def)
next
  case (Cons a rest)
  then show ?thesis
    by (simp add: losses_def loss_vals_def diff_Close where_fl_def max_def case_prod_unfold)
qed

lemma length_gain_vals: "length (gain_vals cs) = length cs"
  by (cases cs) (auto simp: gain_vals_def)

lemma length_loss_vals: "length (loss_vals cs) = length cs"
  by (cases cs) (auto simp: loss_vals_def)

lemma gain_vals_nonneg: "x \<in> set (gain_vals cs) \<Longrightarrow> 0 \<le> x"
  by (cases cs) (auto simp: gain_vals_def)

lemma loss_vals_nonneg: "x \<in> set (loss_vals cs) \<Longrightarrow> 0 \<le> x"
  by (cases cs) (auto simp: loss_vals_def)

lemma foldl_fl_add_Fin: "foldl fl_add (Fin a) (map Fin xs) = Fin (a + sum_list xs)"
  by (induction xs arbitrary: a) (auto simp: algebra_simps)

lemma fl_sum_Fin: "fl_sum (map Fin xs) = Fin (sum_list xs)"
  by (simp add: fl_sum_def foldl_fl_add_Fin)

lemma filter_not_NaN_Fin: "filter (\<lambda>x. x \<noteq> NaN) (map Fin xs) = map Fin xs"
  by (induction xs) auto

lemma rolling_mean_last_Fin:
  assumes "0 < w" "xs \<noteq> []"
  shows "rolling_mean_last w (map Fin xs) =
           (if length xs < nat w then Inr NaN
            else Inr (Fin (sum_list (drop (length xs - nat w) xs) / real_of_int w)))"
proof -
  have d: "drop (length xs - nat w) (map Fin xs) = map Fin (drop (length xs - nat w) xs)"
    by (simp add: drop_map)
  have l: "length xs \<ge> nat w \<Longrightarrow> length (drop (length xs - nat w) xs) = nat w"
    by simp
  show ?thesis using assms
    by (auto simp: rolling_mean_last_def Let_def d filter_not_NaN_Fin fl_sum_Fin)
qed



text \<open>
  The value \<open>calculate_rsi\<close> returns on a non-empty series and a positive period, in
  terms of the sums of the gains and of the losses over the last \<open>period\<close> rows.
\<close>

lemma calculate_rsi_eval:
  assumes "0 < p" "cs \<noteq> []"
  shows "calculate_rsi (Some cs) p =
    (if length cs < nat p then Inr (Some NaN)
     else let G = sum_list (drop (length cs - nat p) (gain_vals cs)) / real_of_int p;
              L = sum_list (drop (length cs - nat p) (loss_vals cs)) / real_of_int p
          in if L = 0 then Inr (Some (Fin 100))
             else Inr (Some (Fin (100 - 100 / (1 + G / L)))))"
proof -
  have g: "gain_vals cs \<noteq> []" and l: "loss_vals cs \<noteq> []"
    using assms(2) length_gain_vals [of cs] length_loss_vals [of cs] by auto
  have G0: "0 \<le> sum_list (drop (length cs - nat p) (gain_vals cs))"
    by (rule sum_list_nonneg) (auto dest: in_set_dropD gain_vals_nonneg)
  have L0: "0 \<le> sum_list (drop (length cs - nat p) (loss_vals cs))"
    by (rule sum_list_nonneg) (auto dest: in_set_dropD loss_vals_nonneg)
  have nz: "1 + sum_list (drop (length cs - nat p) (gain_vals cs)) /
                sum_list (drop (length cs - nat p) (loss_vals cs)) \<noteq> 0"
  proof -
    have "0 \<le> sum_list (drop (length cs - nat p) (gain_vals cs)) /
                sum_list (drop (length cs - nat p) (loss_vals cs))"
      using G0 L0 by (rule divide_nonneg_nonneg)
    then show ?thesis by linarith
  qed
  show ?thesis
    using assms nz
    by (simp add: calculate_rsi_def avg_gain_def avg_loss_def gains_vals losses_vals
        rolling_mean_last_Fin [OF assms(1) g] rolling_mean_last_Fin [OF assms(1) l]
        length_gain_vals length_loss_vals fl_eq_def fl_sub_def Let_def)
qed





lemmas rsi_unfold = calculate_rsi_def avg_gain_def avg_loss_def rolling_mean_last_def gains_def
  losses_def where_fl_def diff_def Close_def fl_sum_def fl_eq_def fl_sub_def fl_gt_def



text \<open>
  Claim C2, as amended. For every non-empty price series and every period of at least 1,
  \<open>calculate_rsi\<close> raises no error and returns a number exactly when the series has at
  least \<open>period\<close> bars: the first row, whose difference is undefined, counts as a row
  with no gain and no loss. With fewer bars no number is produced. None is returned for
  missing or empty data.
\<close>

theorem rsi_numeric_iff_period_bars:
  "calculate_rsi None period = Inr None
   \<and> calculate_rsi (Some []) period = Inr None
   \<and> (cs \<noteq> [] \<and> 1 \<le> period
        \<longrightarrow> (\<exists>r. calculate_rsi (Some cs) period = Inr (Some (Fin r)))
              = (period \<le> int (length cs))
          \<and> (\<forall>e. calculate_rsi (Some cs) period \<noteq> Inl e))"
proof (intro conjI impI)
  show "calculate_rsi None period = Inr None"
    by (simp add: calculate_rsi_def)
  show "calculate_rsi (Some []) period = Inr None"
    by (simp add: calculate_rsi_def)
next
  assume a: "cs \<noteq> [] \<and> 1 \<le> period"
  then show "(\<exists>r. calculate_rsi (Some cs) period = Inr (Some (Fin r)))
              = (period \<le> int (length cs))"
    using calculate_rsi_eval [of period cs] by (auto simp: Let_def)
  show "\<forall>e. calculate_rsi (Some cs) period \<noteq> Inl e"
    using a calculate_rsi_eval [of period cs] by (auto simp: Let_def)
qed

text \<open>
  The theorem at a series of 3 bars and at a series of 2 bars, with period 3, and at the
  empty series.
\<close>

theorem rsi_numeric_iff_period_bars_witness:
  "[10, 12, 11 :: real] \<noteq> [] \<and> (1::int) \<le> 3
   \<and> (\<exists>r. calculate_rsi (Some [10, 12, 11]) 3 = Inr (Some (Fin r)))
   \<and> (\<forall>r. calculate_rsi (Some [10, 12]) 3 \<noteq> Inr (Some (Fin r)))
   \<and> calculate_rsi (Some []) 3 = Inr None
   \<and> calculate_rsi None 3 = Inr None"
  using rsi_numeric_iff_period_bars [of 3 "[10, 12, 11]"]
    rsi_numeric_iff_period_bars [of 3 "[10, 12]"]
  by simp

text \<open>
  Claim C2 as stated asks for None below \<open>period + 1\<close> bars. A series of 14 bars has a
  numeric RSI at period 14, and a series of one bar gives the float NaN, not None.
\<close>

theorem rsi_short_series_counterexample:
  "calculate_rsi (Some [10, 12, 11, 13, 12, 14, 13, 15, 14, 16, 15, 17, 16, 18]) 14
     = Inr (Some (Fin 70))
   \<and> calculate_rsi (Some [10]) 14 = Inr (Some NaN)"
  by (simp add: rsi_unfold)

text \<open>
  Claim C3 at a series of three bars. The RSI is the float NaN, which is not None:
  \<open>get_simple_signal\<close> passes the test for None, both comparisons with NaN are false,
  and the signal is ATTENDRE (hold) where the claim asks for INCONNU (unknown).
\<close>

theorem signal_on_short_series:
  "calculate_rsi (Some [100, 101, 102]) 14 = Inr (Some NaN)
   \<and> get_simple_signal (Some [100, 101, 102]) = Inr ATTENDRE"
  by (simp add: get_simple_signal_def rsi_unfold)

section \<open>The price change\<close>

text \<open>
  Claim C7 at a series whose first close is 0. \<open>calculate_price_change\<close> divides by
  the first close without a test: the percent change is the float infinity, neither a
  sentinel chosen by the code nor None.
\<close>

theorem price_change_zero_first_close:
  "calculate_price_change (Some [0, 5])
     = Some \<lparr>prix_debut = Fin 0, prix_fin = Fin 5, variation = Fin 5, variation_pct = PInf\<rparr>"
  by (simp add: calculate_price_change_def Close_def fl_sub_def inf_of_sign_def Let_def)

section \<open>Volatility\<close>

lemma pct_change_Close:
  assumes "\<forall>x\<in>set (butlast (a # rest)). x \<noteq> 0"
  shows "map (\<lambda>r. fl_mul r (Fin 100)) (pct_change (Close (a # rest)))
           = NaN # map Fin (daily_return (a # rest))"
proof -
  have z: "zip (Fin a # map Fin rest) (map Fin rest)
             = map (\<lambda>(p, c). (Fin p, Fin c)) (zip (a # rest) rest)"
    using zip_Fin [of "a # rest" rest] by simp
  have nz: "p \<noteq> 0" if "(p, c) \<in> set (zip (a # rest) rest)" for p c
  proof -
    from that have "\<exists>n. (a # rest) ! n = p \<and> n < length rest"
      unfolding in_set_zip by force
    then obtain n where n: "n < length rest" "(a # rest) ! n = p" by blast
    have len: "n < length (butlast (a # rest))"
      using n(1) by (simp del: butlast.simps)
    then have "butlast (a # rest) ! n = (a # rest) ! n" by (rule nth_butlast)
    then have "p \<in> set (butlast (a # rest))" using len n(2) by (metis nth_mem)
    then show ?thesis using assms by blast
  qed
  have "map (\<lambda>x. fl_mul (case x of (p, c) \<Rightarrow> fl_sub (fl_div (Fin c) (Fin p)) (Fin 1)) (Fin 100))
          (zip (a # rest) rest)
        = map (\<lambda>x. Fin (case x of (p, c) \<Rightarrow> (c - p) / p * 100)) (zip (a # rest) rest)"
    by (rule map_cong) (auto simp: fl_sub_def diff_divide_distrib dest: nz)
  then show ?thesis
    by (simp add: pct_change_def Close_def z daily_return_def case_prod_unfold comp_def)
qed

lemma std_Fin:
  assumes "2 \<le> length rs"
  shows "std (NaN # map Fin rs) = Fin (sample_std rs)"
proof -
  have f: "filter (\<lambda>x. x \<noteq> NaN) (NaN # map Fin rs) = map Fin rs"
    by (simp add: filter_not_NaN_Fin)
  have sq: "(\<lambda>v. (sum_list rs / real (length rs) - v)\<^sup>2) = (\<lambda>v. (v - sum_list rs / real (length rs))\<^sup>2)"
    by (auto simp: power2_commute)
  show ?thesis using assms
    unfolding std_def f
    by (simp add: Let_def is_fin_def comp_def sample_std_def mean_def sq)
qed

lemma length_daily_return: "length (daily_return cs) = length cs - 1"
  by (simp add: daily_return_def)

lemma std_few_obs: "length xs < 3 \<Longrightarrow> hd xs = NaN \<Longrightarrow> xs \<noteq> [] \<Longrightarrow> std xs = NaN"
proof -
  assume a: "length xs < 3" "hd xs = NaN" "xs \<noteq> []"
  then obtain ys where xs: "xs = NaN # ys" by (cases xs) auto
  have "length (filter (\<lambda>x. x \<noteq> NaN) ys) \<le> length ys" by simp
  moreover have "length ys < 2" using a xs by simp
  ultimately have "length (filter (\<lambda>x. x \<noteq> NaN) ys) < 2" by linarith
  then have "length (filter (\<lambda>x. x \<noteq> NaN) xs) < 2" using xs by simp
  then show ?thesis by (simp add: std_def Let_def)
qed

text \<open>
  Claim C8, as amended. Without data \<open>calculate_volatility\<close> returns None. A series
  of fewer than 3 bars yields no number. For every series of at least 3 bars whose closes
  before the last are all different from 0, the volatility is the sample standard
  deviation of the daily returns.
\<close>

theorem volatility_needs_three_bars:
  "calculate_volatility None = None \<and> calculate_volatility (Some []) = None
   \<and> (length cs < 3 \<longrightarrow> (\<forall>r. calculate_volatility (Some cs) \<noteq> Some (Fin r)))
   \<and> (3 \<le> length cs \<and> (\<forall>x\<in>set (butlast cs). x \<noteq> 0)
        \<longrightarrow> calculate_volatility (Some cs) = Some (Fin (sample_std (daily_return cs))))"
proof (intro conjI impI)
  show "calculate_volatility None = None"
    by (simp add: calculate_volatility_def calculate_daily_return_def)
  show "calculate_volatility (Some []) = None"
    by (simp add: calculate_volatility_def calculate_daily_return_def)
next
  assume a: "length cs < 3"
  show "\<forall>r. calculate_volatility (Some cs) \<noteq> Some (Fin r)"
  proof (cases cs)
    case Nil
    then show ?thesis by (simp add: calculate_volatility_def calculate_daily_return_def)
  next
    case (Cons c rest)
    have "std (map (\<lambda>r. fl_mul r (Fin 100)) (pct_change (Close cs))) = NaN"
      using a Cons by (intro std_few_obs) (simp_all add: pct_change_def Close_def)
    then show ?thesis
      using Cons by (simp add: calculate_volatility_def calculate_daily_return_def)
  qed
next
  assume a: "3 \<le> length cs \<and> (\<forall>x\<in>set (butlast cs). x \<noteq> 0)"
  then obtain c rest where cs: "cs = c # rest" by (cases cs) auto
  have "2 \<le> length (daily_return cs)" using a unfolding length_daily_return by linarith
  then show "calculate_volatility (Some cs) = Some (Fin (sample_std (daily_return cs)))"
    using a cs pct_change_Close [of c rest] std_Fin [of "daily_return cs"]
    by (simp add: calculate_volatility_def calculate_daily_return_def)
qed

text \<open>
  The theorem at a series of three bars, whose daily returns are 10 and -10, and at a
  series of two bars.
\<close>

theorem volatility_needs_three_bars_witness:
  "3 \<le> length [100, 110, 99 :: real] \<and> 0 \<notin> set (butlast [100, 110, 99 :: real])
   \<and> calculate_volatility (Some [100, 110, 99]) = Some (Fin (sqrt 200))
   \<and> length [100, 110 :: real] < 3
   \<and> (\<forall>r. calculate_volatility (Some [100, 110]) \<noteq> Some (Fin r))"
  using volatility_needs_three_bars [of "[100, 110, 99]"]
    volatility_needs_three_bars [of "[100, 110]"]
  by (simp add: sample_std_def daily_return_def mean_def)

text \<open>
  Claim C8 as stated gives a series of 2 bars the sample standard deviation of its
  daily returns. It has one return, 10, and the code returns NaN.
\<close>

theorem volatility_two_bars_counterexample:
  "daily_return [100, 110] = [10]
   \<and> calculate_volatility (Some [100, 110]) = Some NaN"
  by (simp add: calculate_volatility_def calculate_daily_return_def pct_change_def Close_def
      std_def fl_sub_def Let_def daily_return_def)

section \<open>Properties of Stock\<close>

lemma upper_char_idem: "upper_char (upper_char c) = upper_char c"
  by (auto simp: upper_char_def less_eq_char_def)

lemma upper_idem: "upper (upper s) = upper s"
  by (simp add: upper_def upper_char_idem)

lemma symbol_Stock_init: "symbol (Stock_init symb nm) = upper (symbol (Stock_init symb nm))"
  by (simp add: Stock_init_def upper_idem)

text \<open>
  Claim C9. \<open>update_price\<close> sets \<open>current_price\<close> to the new price whatever it
  is; each of \<open>opening_price\<close>, \<open>highest_price\<close>, \<open>lowest_price\<close> and
  \<open>volume\<close> takes the argument when it is not None and keeps its value otherwise;
  \<open>last_update\<close> is the time of the call; \<open>symbol\<close> and \<open>name\<close> do not change.
\<close>

theorem update_price_frame:
  "current_price (update_price now new_price opening high low vol s) = new_price
   \<and> opening_price (update_price now new_price opening high low vol s)
       = (case opening of None \<Rightarrow> opening_price s | Some v \<Rightarrow> Some v)
   \<and> highest_price (update_price now new_price opening high low vol s)
       = (case high of None \<Rightarrow> highest_price s | Some v \<Rightarrow> Some v)
   \<and> lowest_price (update_price now new_price opening high low vol s)
       = (case low of None \<Rightarrow> lowest_price s | Some v \<Rightarrow> Some v)
   \<and> volume (update_price now new_price opening high low vol s)
       = (case vol of None \<Rightarrow> volume s | Some v \<Rightarrow> Some v)
   \<and> last_update (update_price now new_price opening high low vol s) = Some now
   \<and> symbol (update_price now new_price opening high low vol s) = symbol s
   \<and> name (update_price now new_price opening high low vol s) = name s"
  by (simp add: update_price_def Let_def split: option.splits)






section \<open>Properties of Portfolio\<close>











text \<open>
  Claim C6. In a portfolio whose stocks carry their symbol in upper case, as
  \<open>Stock_init\<close> stores it, \<open>add_stock\<close> returns False and the same portfolio when a
  stock of the portfolio has the symbol of the new one up to case; otherwise it returns
  True and the portfolio with the new stock appended at the end.
\<close>

theorem add_stock_rejects_duplicates:
  assumes "\<forall>t\<in>set (stocks p). symbol t = upper (symbol t)"
  shows "add_stock p s =
           (if \<exists>t\<in>set (stocks p). upper (symbol t) = upper (symbol s) then (False, p)
            else (True, p\<lparr>stocks := stocks p @ [s]\<rparr>))"
proof -
  have "(\<exists>t\<in>set (stocks p). symbol t = upper (symbol s))
        = (\<exists>t\<in>set (stocks p). upper (symbol t) = upper (symbol s))"
    using assms by metis
  then show ?thesis
    by (auto simp: add_stock_def get_stock_def find_None_iff)
qed

text \<open>
  The theorem at a portfolio that holds AAPL: a stock created as aapl is rejected, a
  stock created as msft is appended.
\<close>

theorem add_stock_rejects_duplicates_witness:
  "symbol (Stock_init ''AAPL'' ''Apple'') = upper (symbol (Stock_init ''AAPL'' ''Apple''))
   \<and> add_stock \<lparr>portfolio_name = ''P'', stocks = [Stock_init ''AAPL'' ''Apple'']\<rparr>
         (Stock_init ''aapl'' ''Apple'')
       = (False, \<lparr>portfolio_name = ''P'', stocks = [Stock_init ''AAPL'' ''Apple'']\<rparr>)
   \<and> add_stock \<lparr>portfolio_name = ''P'', stocks = [Stock_init ''AAPL'' ''Apple'']\<rparr>
         (Stock_init ''msft'' ''Microsoft'')
       = (True, \<lparr>portfolio_name = ''P'',
                 stocks = [Stock_init ''AAPL'' ''Apple'', Stock_init ''msft'' ''Microsoft'']\<rparr>)"
proof -
  have u: "upper ''AAPL'' = ''AAPL''" "upper ''aapl'' = ''AAPL''" "upper ''msft'' = ''MSFT''"
    "upper ''MSFT'' = ''MSFT''"
    by code_simp+
  show ?thesis
    using add_stock_rejects_duplicates
        [of "\<lparr>portfolio_name = ''P'', stocks = [Stock_init ''AAPL'' ''Apple'']\<rparr>"
            "Stock_init ''aapl'' ''Apple''"]
      add_stock_rejects_duplicates
        [of "\<lparr>portfolio_name = ''P'', stocks = [Stock_init ''AAPL'' ''Apple'']\<rparr>"
            "Stock_init ''msft'' ''Microsoft''"]
    by (simp add: Stock_init_def u)
qed

section \<open>The best and the worst performer\<close>



lemma set_map_filter_variation:
  "set (List.map_filter f xs) = {v. \<exists>s\<in>set xs. f s = Some v}"
  by (induction xs) (auto simp: List.map_filter_simps split: option.splits)





text \<open>
  What \<open>spec_best_performer\<close> says, index by index.
\<close>

lemma spec_best_performer_None:
  "(spec_best_performer ties xs = None) = (\<forall>s\<in>set xs. get_variation ties s = None)"
proof (cases "List.map_filter (get_variation ties) xs = []")
  case True
  have "get_variation ties s = None" if "s \<in> set xs" for s
  proof (cases "get_variation ties s")
    case None
    then show ?thesis .
  next
    case (Some v)
    then have "v \<in> set (List.map_filter (get_variation ties) xs)"
      using that by (auto simp: set_map_filter_variation)
    then show ?thesis using True by simp
  qed
  then show ?thesis using True by (simp add: spec_best_performer_def)
next
  case False
  define m where "m = Max (set (List.map_filter (get_variation ties) xs))"
  have "m \<in> set (List.map_filter (get_variation ties) xs)" using False by (simp add: m_def)
  then obtain s where "s \<in> set xs" "get_variation ties s = Some m"
    by (auto simp: set_map_filter_variation)
  then show ?thesis
    using False unfolding spec_best_performer_def Let_def m_def [symmetric]
    by (auto simp: find_None_iff)
qed

lemma spec_best_performer_Some:
  assumes "spec_best_performer ties xs = Some b"
  shows "\<exists>i v. i < length xs \<and> b = xs ! i \<and> get_variation ties b = Some v
           \<and> (\<forall>s\<in>set xs. \<forall>w. get_variation ties s = Some w \<longrightarrow> w \<le> v)
           \<and> (\<forall>j<i. get_variation ties (xs ! j) \<noteq> Some v)"
proof -
  let ?vs = "List.map_filter (get_variation ties) xs"
  have ne: "?vs \<noteq> []" using assms by (auto simp: spec_best_performer_def Let_def split: if_splits)
  define m where "m = Max (set ?vs)"
  have f: "find (\<lambda>s. get_variation ties s = Some m) xs = Some b"
    using assms ne by (simp add: spec_best_performer_def Let_def m_def)
  then obtain i where i: "i < length xs" "get_variation ties (xs ! i) = Some m" "b = xs ! i"
      "\<forall>j<i. get_variation ties (xs ! j) \<noteq> Some m"
    unfolding find_Some_iff by blast
  have "w \<le> m" if "s \<in> set xs" "get_variation ties s = Some w" for s w
  proof -
    have "w \<in> set ?vs" using that by (auto simp: set_map_filter_variation)
    then show ?thesis by (simp add: m_def)
  qed
  then show ?thesis using i by blast
qed

section \<open>Sequential and concurrent batch fetch\<close>

lemma without_time_update_price:
  "without_time (update_price now a b c d e s) = without_time (update_price now' a b c d e s)"
  by (simp add: without_time_def update_price_def Let_def split: option.splits)

lemma create_without_time:
  "map_option without_time (create_stock_from_api src now symb) = fetched src symb"
  using without_time_update_price [of now _ _ _ _ _ _ 0]
  by (simp add: fetched_def create_stock_from_api_def split: option.splits)

lemma sync_loop_without_time:
  "map without_time (sync_loop src clock i symbols acc)
     = map without_time acc @ List.map_filter (fetched src) symbols"
proof (induction symbols arbitrary: i acc)
  case Nil
  then show ?case by (simp add: List.map_filter_simps)
next
  case (Cons symb rest)
  show ?case
  proof (cases "create_stock_from_api src (clock i) symb")
    case None
    then have "fetched src symb = None"
      using create_without_time [of src "clock i" symb] by simp
    then show ?thesis using None Cons by (simp add: List.map_filter_simps)
  next
    case (Some st)
    then have "fetched src symb = Some (without_time st)"
      using create_without_time [of src "clock i" symb] by simp
    then show ?thesis using Some Cons by (simp add: List.map_filter_simps)
  qed
qed

lemma length_gather_loop:
  "length (gather_loop src clock k sched symbols results) = length results"
  by (induction sched arbitrary: k results) auto

lemma result_without_time_fetch_one:
  "result_without_time (fetch_one_stock_async src now symb) = Returned (fetched src symb)"
  using create_without_time [of src now symb]
  by (cases "create_stock_from_api src now symb")
     (auto simp: result_without_time_def fetch_one_stock_async_def)

text \<open>
  After a run of the schedule, the cell of a task that has completed holds the quote of
  its symbol, and the other cells are as they were.
\<close>

lemma gather_loop_nth:
  assumes "length results = length symbols" "j < length symbols"
  shows "result_without_time (gather_loop src clock k sched symbols results ! j)
           = (if j \<in> set sched then Returned (fetched src (symbols ! j))
              else result_without_time (results ! j))"
  using assms
proof (induction sched arbitrary: k results)
  case Nil
  then show ?case by simp
next
  case (Cons i sched)
  show ?case
  proof (cases "i < length symbols")
    case False
    then have "j \<noteq> i" using Cons.prems by auto
    then show ?thesis using False Cons by simp
  next
    case True
    let ?r = "results[i := fetch_one_stock_async src (clock k) (symbols ! i)]"
    have len: "length ?r = length symbols" using Cons.prems by simp
    have "result_without_time (gather_loop src clock (Suc k) sched symbols ?r ! j)
            = (if j \<in> set sched then Returned (fetched src (symbols ! j))
               else result_without_time (?r ! j))"
      using Cons.IH [OF len Cons.prems(2)] .
    moreover have "result_without_time (?r ! j)
            = (if j = i then Returned (fetched src (symbols ! j))
               else result_without_time (results ! j))"
      using Cons.prems True by (simp add: nth_list_update result_without_time_fetch_one)
    ultimately show ?thesis using True by auto
  qed
qed

lemma gather_without_time:
  assumes "set sched = {..<length symbols}"
  shows "map result_without_time (gather src clock sched symbols)
           = map (\<lambda>symb. Returned (fetched src symb)) symbols"
proof (rule nth_equalityI)
  show "length (map result_without_time (gather src clock sched symbols))
          = length (map (\<lambda>symb. Returned (fetched src symb)) symbols)"
    by (simp add: gather_def length_gather_loop)
next
  fix j assume "j < length (map result_without_time (gather src clock sched symbols))"
  then have j: "j < length symbols" by (simp add: gather_def length_gather_loop)
  then have "j \<in> set sched" using assms by simp
  then show "map result_without_time (gather src clock sched symbols) ! j
          = map (\<lambda>symb. Returned (fetched src symb)) symbols ! j"
    using j gather_loop_nth [of "replicate (length symbols) Pending" symbols j src clock 0 sched]
    by (simp add: gather_def length_gather_loop)
qed

lemma returned_stock_without_time:
  "map without_time (List.map_filter returned_stock rs)
     = List.map_filter returned_stock (map result_without_time rs)"
proof (induction rs)
  case Nil
  then show ?case by (simp add: List.map_filter_simps)
next
  case (Cons r rs)
  then show ?case
    by (cases r) (auto simp: List.map_filter_simps returned_stock_def result_without_time_def
        split: option.splits)
qed

lemma map_filter_returned:
  "List.map_filter returned_stock (map (\<lambda>symb. Returned (f symb)) symbols)
     = List.map_filter f symbols"
  by (induction symbols) (auto simp: List.map_filter_simps returned_stock_def split: option.splits)

lemma async_without_time:
  assumes "set sched = {..<length symbols}"
  shows "map without_time (fetch_multiple_stocks src clock sched symbols)
           = List.map_filter (fetched src) symbols"
  by (simp add: fetch_multiple_stocks_def returned_stock_without_time
      gather_without_time [OF assms] map_filter_returned)

lemma sync_without_time:
  "map without_time (fetch_multiple_stocks_sync src clock symbols)
     = List.map_filter (fetched src) symbols"
  by (simp add: fetch_multiple_stocks_sync_def sync_loop_without_time)

lemma symbol_without_time: "symbol (without_time s) = symbol s"
  by (simp add: without_time_def)

lemma map_symbol_without_time: "map symbol (map without_time xs) = map symbol xs"
  by (simp add: symbol_without_time)

lemma fetched_symbol:
  "map symbol (List.map_filter (fetched src) symbols)
     = map upper (filter (\<lambda>symb. fetch_current_price src symb \<noteq> None) symbols)"
proof (induction symbols)
  case Nil
  then show ?case by (simp add: List.map_filter_simps)
next
  case (Cons symb rest)
  show ?case
  proof (cases "fetch_current_price src symb")
    case None
    then show ?thesis using Cons
      by (simp add: List.map_filter_simps fetched_def create_stock_from_api_def)
  next
    case (Some data)
    then have "data_symbol data = upper symb"
      by (auto simp: fetch_current_price_def Let_def split: sum.splits if_splits)
    then show ?thesis using Cons Some
      by (simp add: List.map_filter_simps fetched_def create_stock_from_api_def
          symbol_without_time update_price_def Let_def Stock_init_def upper_idem
          split: option.splits)
  qed
qed

text \<open>
  Claim C4. On the same source, and for every order in which the concurrent tasks
  complete, \<open>fetch_multiple_stocks\<close> and \<open>fetch_multiple_stocks_sync\<close> return the
  same quotes, up to the time of the stamp, hence the same set of symbols. The symbols
  returned are those of the input for which \<open>fetch_current_price\<close> succeeds, in upper
  case: a symbol that fails is left out and the batch goes on.
\<close>

theorem fetch_sync_async_same_quotes:
  assumes "distinct sched" "set sched = {..<length symbols}"
  shows "map without_time (fetch_multiple_stocks src clock' sched symbols)
           = map without_time (fetch_multiple_stocks_sync src clock symbols)
         \<and> set (map symbol (fetch_multiple_stocks src clock' sched symbols))
           = set (map symbol (fetch_multiple_stocks_sync src clock symbols))
         \<and> map symbol (fetch_multiple_stocks_sync src clock symbols)
           = map upper (filter (\<lambda>symb. fetch_current_price src symb \<noteq> None) symbols)"
proof -
  have eq: "map without_time (fetch_multiple_stocks src clock' sched symbols)
           = map without_time (fetch_multiple_stocks_sync src clock symbols)"
    by (simp add: async_without_time [OF assms(2)] sync_without_time)
  have "map symbol (fetch_multiple_stocks src clock' sched symbols)
          = map symbol (fetch_multiple_stocks_sync src clock symbols)"
    using arg_cong [OF eq, of "map symbol"] unfolding map_symbol_without_time .
  moreover have "map symbol (fetch_multiple_stocks_sync src clock symbols)
           = map upper (filter (\<lambda>symb. fetch_current_price src symb \<noteq> None) symbols)"
    using arg_cong [OF sync_without_time [of src clock symbols], of "map symbol"]
    unfolding map_symbol_without_time fetched_symbol .
  ultimately show ?thesis using eq by simp
qed

text \<open>
  The theorem at four symbols, of which BAD raises and XX has no current price, with the
  tasks completing in the order 2, 0, 3, 1.
\<close>

theorem fetch_sync_async_same_quotes_witness:
  "distinct [2, 0, 3, 1 :: nat]
   \<and> set [2, 0, 3, 1 :: nat] = {..<length [''AAPL'', ''BAD'', ''msft'', ''XX'']}
   \<and> set (map symbol (fetch_multiple_stocks demo_source (\<lambda>k. 10 + k) [2, 0, 3, 1]
             [''AAPL'', ''BAD'', ''msft'', ''XX'']))
       = {''AAPL'', ''MSFT''}
   \<and> map symbol (fetch_multiple_stocks_sync demo_source (\<lambda>i. i)
             [''AAPL'', ''BAD'', ''msft'', ''XX''])
       = [''AAPL'', ''MSFT'']"
proof -
  have d: "distinct [2, 0, 3, 1 :: nat]" by simp
  have s: "set [2, 0, 3, 1 :: nat] = {..<length [''AAPL'', ''BAD'', ''msft'', ''XX'']}"
    by (auto simp: numeral_eq_Suc lessThan_Suc)
  have u: "upper ''AAPL'' = ''AAPL''" "upper ''msft'' = ''MSFT''"
    by code_simp+
  have f: "filter (\<lambda>symb. fetch_current_price demo_source symb \<noteq> None)
             [''AAPL'', ''BAD'', ''msft'', ''XX''] = [''AAPL'', ''msft'']"
    by (simp add: fetch_current_price_def demo_source_def no_info_def dict_get_def Let_def)
  note th = fetch_sync_async_same_quotes [OF d s, of demo_source "\<lambda>k. 10 + k" "\<lambda>i. i"]
  have c3: "map symbol (fetch_multiple_stocks_sync demo_source (\<lambda>i. i)
             [''AAPL'', ''BAD'', ''msft'', ''XX'']) = [''AAPL'', ''MSFT'']"
    using th [unfolded f, THEN conjunct2, THEN conjunct2] by (simp add: u)
  have c2: "set (map symbol (fetch_multiple_stocks demo_source (\<lambda>k. 10 + k) [2, 0, 3, 1]
             [''AAPL'', ''BAD'', ''msft'', ''XX''])) = {''AAPL'', ''MSFT''}"
    using th [THEN conjunct2, THEN conjunct1, unfolded c3] by simp
  show ?thesis
    using d s c2 c3 by blast
qed

end
